theory Spec2Isabelle
  imports
    Complex_Main
    "HOL-Library.Word"
    "HOL-Library.Multiset"
    "HOL-Library.Char_ord"
    "HOL-Library.List_Lexorder"
begin

unbundle bit_operations_syntax

section \<open>The transaction builder of src/transactions.ts\<close>

text \<open>
  The embedding follows class \<open>Transactions\<close> method by method. JavaScript numbers that
  hold integers (time stamps, fees, quantities, operation codes) are \<^typ>\<open>int\<close>; the
  result of a bitwise \<open>|\<close> is a 32-bit word (JavaScript reads it back as the signed
  value \<open>sint\<close>); the numbers that go through division, \<open>Math.pow\<close> and \<open>Math.log\<close>
  are \<^typ>\<open>real\<close>, so rounding of doubles is idealised there and \<open>Infinity\<close> is
  written out where the code can produce it from well-formed data. \<open>null\<close> and
  \<open>undefined\<close> are \<open>None\<close>. Method names lose their leading underscore.
\<close>

subsection \<open>Constant tables of nem-utils\<close>

text \<open>
  Modelled from the spec: \<open>Network.data\<close> of nem-utils is not part of the sources. The
  code only compares \<open>wallet.network\<close> with the identifiers of the main and of the test
  network, so a network is one of main, test, or anything else.
\<close>

datatype network = Mainnet | Testnet | OtherNetwork

text \<open>
  Modelled from the spec: \<open>TransactionTypes\<close> of nem-utils is not part of the sources;
  the kind tags are kept symbolic.
\<close>

datatype TransactionTypes =
    Transfer
  | ImportanceTransfer
  | MultisigModification
  | MultisigSignature
  | MultisigTransaction
  | ProvisionNamespace
  | MosaicDefinition
  | MosaicSupply

subsection \<open>Data\<close>

record data =
  txtype :: TransactionTypes
  version :: "32 word"
  signer :: string
  timeStamp :: int
  deadline :: int

record message =
  msg_type :: int
  payload :: string

record mosaicId =
  namespaceId :: string
  name :: string

record mosaicAttachment =
  att_mosaicId :: mosaicId
  quantity :: int

text \<open>
  An entry of the asset registry (\<open>mosaicDefinitionMetaDataPair\<close>). Only the fields
  that \<open>calculateMosaicsFee\<close> reads are kept. A property's \<open>value\<close> is a string in
  the source; it is represented by the integer it denotes, and \<open>~~\<close> is the
  conversion of that integer to a signed 32-bit value.
\<close>

record property =
  prop_name :: string
  prop_value :: int

record mosaicDefinitionMetaDataPair =
  properties :: "property list"
  mosaic_supply :: nat

type_synonym registry = "string \<rightharpoonup> mosaicDefinitionMetaDataPair"

record levy =
  levy_mosaic :: "mosaicId option"
  levy_address :: string
  levy_feeType :: int
  levy_fee :: int

record levyData =
  ld_type :: int
  ld_recipient :: string
  ld_mosaicId :: "mosaicId option"
  ld_fee :: int

record mosaicDefinitionData =
  md_creator :: string
  md_id :: mosaicId
  md_description :: string
  md_properties :: "(string \<times> string) list"
  md_levy :: "levyData option"

record modification =
  modificationType :: int
  cosignatoryAccount :: string

record minCosignatories =
  relativeChange :: "int option"

datatype custom =
    TransferCustom (recipient: string) (amount: real) (message: message)
      (mosaics: "mosaicAttachment list option")
  | NamespaceCustom (rentalFeeSink: string) (rentalFee: int) (parent: "string option")
      (newPart: string)
  | MosaicDefinitionCustom (creationFeeSink: string) (creationFee: int)
      (mosaicDefinition: mosaicDefinitionData)
  | MosaicSupplyCustom (ms_mosaicId: mosaicId) (supplyType: int) (delta: int)
  | ImportanceTransferCustom (remoteAccount: string) (mode: int)
  | AggregateCustom (modifications: "modification list")
      (minCosignatories: "minCosignatories option")
  | SignatureCustom (otherHash: string) (otherAccount: string)
  | MultisigCustom (otherTrans: entity)
and entity = Entity (header: data) (fee: int) (custom: custom)

subsection \<open>Intents\<close>

text \<open>
  The \<open>tx\<close> objects the \<open>prepare\<close> methods read. \<open>multisigAccount\<close> stands for
  \<open>tx.multisigAccount.publicKey\<close>, \<open>ns_namespaceParent\<close> and
  \<open>mdt_namespaceParent\<close> for \<open>tx.namespaceParent.fqn\<close>.
\<close>

record common =
  privateKey :: string

record signerContext =
  isMultisig :: bool
  multisigAccount :: string

record transferTx = signerContext +
  tx_recipient :: string
  tx_amount :: real
  tx_message :: string
  tx_mosaics :: "mosaicAttachment list option"

record namespaceTx = signerContext +
  ns_rentalFeeSink :: string
  ns_namespaceParent :: "string option"
  ns_namespaceName :: string

record mosaicDefinitionTx = signerContext +
  mdt_mosaicFeeSink :: string
  mdt_namespaceParent :: string
  mdt_mosaicName :: string
  mdt_mosaicDescription :: string
  mdt_properties :: "(string \<times> string) list"
  mdt_levy :: levy

record mosaicSupplyTx = signerContext +
  st_mosaic :: mosaicId
  st_supplyType :: int
  st_delta :: int

record importanceTx = signerContext +
  it_remoteAccount :: string
  it_mode :: int

record signatureTx =
  sg_multisigAccountAddress :: string
  sg_hash :: string

record aggregateTx =
  multisigPubKey :: string
  minCosigs :: "int option"

record signatory =
  sig_type :: int
  pubKey :: string

text \<open>
  What the builder takes from outside: the wallet's network, and the helpers of nem-utils
  and of the JavaScript runtime whose code is not part of the sources. The network clock
  is read by \<open>helpers.createNEMTimeStamp()\<close>; \<open>createNEMTimeStamp env k\<close> is what the
  \<open>k\<close>-th read returns, and every builder threads the number of reads made so far.
  \<open>publicKey env k\<close> is
  \<open>KeyPair.create(helpers.fixPrivateKey(k)).publicKey.toString()\<close>.
  \<open>localeCompare env s t\<close> is \<open>s.localeCompare(t)\<close>, called without a locale: the
  collation of the host's default locale, which the sources do not fix.
\<close>

record env =
  network :: network
  createNEMTimeStamp :: "nat \<Rightarrow> int"
  calcMinFee :: "real \<Rightarrow> int"
  calcXemEquivalent :: "real \<Rightarrow> int \<Rightarrow> nat \<Rightarrow> int \<Rightarrow> real"
  mosaicIdToName :: "mosaicId \<Rightarrow> string"
  prepareMessage :: "common \<Rightarrow> transferTx \<Rightarrow> message"
  toAddress :: "string \<Rightarrow> network \<Rightarrow> string"
  publicKey :: "string \<Rightarrow> string"
  toUpperCase :: "string \<Rightarrow> string"
  localeCompare :: "string \<Rightarrow> string \<Rightarrow> int"

subsection \<open>Common header\<close>

definition CURRENT_NETWORK_VERSION :: "env \<Rightarrow> 32 word \<Rightarrow> 32 word" where
  "CURRENT_NETWORK_VERSION env val =
     (if network env = Mainnet then 0x68000000 OR val
      else if network env = Testnet then 0x98000000 OR val
      else 0x60000000 OR val)"

definition CREATE_DATA ::
  "env \<Rightarrow> TransactionTypes \<Rightarrow> string \<Rightarrow> int \<Rightarrow> int \<Rightarrow> 32 word \<Rightarrow> data" where
  "CREATE_DATA env ty senderPublicKey ts due ver =
     \<lparr> txtype = ty,
       version = (if ver \<noteq> 0 then ver else CURRENT_NETWORK_VERSION env 1),
       signer = senderPublicKey,
       timeStamp = ts,
       deadline = ts + due * 60 \<rparr>"

text \<open>\<open>s.replace(/-/g, "")\<close>\<close>

definition stripDashes :: "string \<Rightarrow> string" where
  "stripDashes s = filter (\<lambda>c. c \<noteq> CHR ''-'') s"

subsection \<open>Fees for attached mosaics\<close>

text \<open>\<open>~~v\<close> on an integer: the signed 32-bit value of its low 32 bits.\<close>

definition toInt32 :: "int \<Rightarrow> int" where
  "toInt32 v = sint (word_of_int v :: 32 word)"

definition divisibilityOf :: "mosaicDefinitionMetaDataPair \<Rightarrow> int" where
  "divisibilityOf pair =
     (case filter (\<lambda>w. prop_name w = ''divisibility'') (properties pair) of
        [p] \<Rightarrow> toInt32 (prop_value p)
      | _ \<Rightarrow> 0)"

text \<open>
  \<open>supplyRelatedAdjustment\<close> is a number that can be \<open>Infinity\<close>: a supply of 0 with a
  divisibility other than 0 divides by zero, and
  \<open>Math.floor(0.8 * Math.log(Infinity))\<close> is \<open>Infinity\<close>.
\<close>

datatype jsAdjustment = Finite int | Infinity

definition supplyAdjustment :: "nat \<Rightarrow> int \<Rightarrow> jsAdjustment" where
  "supplyAdjustment supplyQ divisibility =
     (let maxMosaicQuantity = (9000000000000000 :: real);
          totalMosaicQuantity = real supplyQ * 10 powi divisibility
      in if totalMosaicQuantity = 0 then Infinity
         else Finite \<lfloor>0.8 * ln (maxMosaicQuantity / totalMosaicQuantity)\<rfloor>)"

text \<open>\<open>Math.max(1, fee - supplyRelatedAdjustment)\<close>\<close>

definition adjustedFee :: "int \<Rightarrow> jsAdjustment \<Rightarrow> int" where
  "adjustedFee f adj = (case adj of Finite a \<Rightarrow> max 1 (f - a) | Infinity \<Rightarrow> 1)"

text \<open>
  The three variables the loop of \<open>calculateMosaicsFee\<close> keeps across its iterations;
  all three are declared before the loop.
\<close>

record loopState =
  totalFee :: int
  loop_fee :: int
  supplyRelatedAdjustment :: jsAdjustment

text \<open>One run of the loop body; \<open>None\<close> is the \<open>return -1\<close> of an unknown name.\<close>

definition mosaicStep ::
  "env \<Rightarrow> real \<Rightarrow> registry \<Rightarrow> loopState \<Rightarrow> mosaicAttachment \<Rightarrow> loopState option" where
  "mosaicStep env multiplier mosaicsMeta st m =
     (let mosaicName = mosaicIdToName env (att_mosaicId m)
      in case mosaicsMeta mosaicName of
           None \<Rightarrow> None
         | Some pair \<Rightarrow>
             (let divisibility = divisibilityOf pair;
                  supplyQ = mosaic_supply pair;
                  st1 =
                    (if supplyQ \<le> 10000 \<and> divisibility = 0 then st\<lparr>loop_fee := 1\<rparr>
                     else
                       (let adj = supplyAdjustment supplyQ divisibility;
                            numNem = calcXemEquivalent env multiplier (quantity m) supplyQ divisibility
                        in st\<lparr>supplyRelatedAdjustment := adj,
                              loop_fee := calcMinFee env (of_int \<lceil>numNem\<rceil>)\<rparr>))
              in Some (st1\<lparr>totalFee :=
                   totalFee st1 + adjustedFee (loop_fee st1) (supplyRelatedAdjustment st1)\<rparr>)))"

fun mosaicsLoop ::
  "env \<Rightarrow> real \<Rightarrow> registry \<Rightarrow> mosaicAttachment list \<Rightarrow> loopState \<Rightarrow> loopState option" where
  "mosaicsLoop env multiplier mosaicsMeta [] st = Some st"
| "mosaicsLoop env multiplier mosaicsMeta (m # ms) st =
     (case mosaicStep env multiplier mosaicsMeta st m of
        None \<Rightarrow> None
      | Some st' \<Rightarrow> mosaicsLoop env multiplier mosaicsMeta ms st')"

definition initialLoopState :: loopState where
  "initialLoopState = \<lparr> totalFee = 0, loop_fee = 0, supplyRelatedAdjustment = Finite 0 \<rparr>"

definition calculateMosaicsFee ::
  "env \<Rightarrow> real \<Rightarrow> registry \<Rightarrow> mosaicAttachment list \<Rightarrow> int" where
  "calculateMosaicsFee env multiplier mosaicsMeta attachedMosaics =
     (case mosaicsLoop env multiplier mosaicsMeta attachedMosaics initialLoopState of
        None \<Rightarrow> - 1
      | Some st \<Rightarrow> max 1 (totalFee st))"

subsection \<open>Multisig wrapper and transfer\<close>

definition multisigWrapper :: "env \<Rightarrow> nat \<Rightarrow> string \<Rightarrow> entity \<Rightarrow> int \<Rightarrow> entity \<times> nat" where
  "multisigWrapper env n senderPublicKey innerEntity due =
     (let ts = createNEMTimeStamp env n;
          ver = CURRENT_NETWORK_VERSION env 1;
          d = CREATE_DATA env MultisigTransaction senderPublicKey ts due ver
      in (Entity d 6000000 (MultisigCustom innerEntity), Suc n))"

text \<open>
  The message fee of \<open>_constructTransfer\<close>:
  \<open>message.payload.length ? Math.max(1, Math.floor((message.payload.length / 2) / 32) + 1) : 0\<close>
\<close>

definition msgFee :: "message \<Rightarrow> int" where
  "msgFee msg =
     (if length (payload msg) \<noteq> 0
      then max 1 (\<lfloor>(real (length (payload msg)) / 2) / 32\<rfloor> + 1)
      else 0)"

text \<open>
  \<open>mosaics ? mosaicsFee : helpers.calcMinFee(amount / 1000000)\<close>: an array, also an
  empty one, is truthy; a \<open>null\<close> fee counts as 0 in the sum that follows.
\<close>

definition constructTransfer ::
  "env \<Rightarrow> nat \<Rightarrow> string \<Rightarrow> string \<Rightarrow> real \<Rightarrow> message \<Rightarrow> int \<Rightarrow>
   mosaicAttachment list option \<Rightarrow> int option \<Rightarrow> entity \<times> nat" where
  "constructTransfer env n senderPublicKey recipientCompressedKey amt msg due mos mosaicsFee =
     (let ts = createNEMTimeStamp env n;
          ver = (if mos \<noteq> None then CURRENT_NETWORK_VERSION env 2
                 else CURRENT_NETWORK_VERSION env 1);
          d = CREATE_DATA env Transfer senderPublicKey ts due ver;
          f = (if mos \<noteq> None then (case mosaicsFee of None \<Rightarrow> 0 | Some v \<Rightarrow> v)
               else calcMinFee env (amt / 1000000));
          total = (msgFee msg + f) * 1000000
      in (Entity d total
            (TransferCustom (stripDashes (toUpperCase env recipientCompressedKey)) amt msg mos),
          Suc n))"

text \<open>\<open>Math.round\<close>\<close>

definition jsRound :: "real \<Rightarrow> int" where
  "jsRound x = \<lfloor>x + 1 / 2\<rfloor>"

definition prepareTransfer ::
  "env \<Rightarrow> nat \<Rightarrow> common \<Rightarrow> transferTx \<Rightarrow> registry \<Rightarrow> entity \<times> nat" where
  "prepareTransfer env n cmn tx mosaicsMetaData =
     (let kp = publicKey env (privateKey cmn);
          actualSender = (if isMultisig tx then multisigAccount tx else kp);
          recipientCompressedKey = tx_recipient tx;
          amt = real_of_int (jsRound (tx_amount tx * 1000000));
          msg = prepareMessage env cmn tx;
          due = (if network env = Testnet then 60 else 24 * 60);
          mos = tx_mosaics tx;
          mosaicsFee =
            (case mos of
               None \<Rightarrow> None
             | Some ms \<Rightarrow> Some (calculateMosaicsFee env amt mosaicsMetaData ms));
          (ent, n1) =
            constructTransfer env n actualSender recipientCompressedKey amt msg due mos mosaicsFee
      in if isMultisig tx then multisigWrapper env n1 kp ent due else (ent, n1))"

definition prepareApostilleTransfer ::
  "env \<Rightarrow> nat \<Rightarrow> common \<Rightarrow> transferTx \<Rightarrow> entity \<times> nat" where
  "prepareApostilleTransfer env n cmn tx =
     (let kp = publicKey env (privateKey cmn);
          actualSender = (if isMultisig tx then multisigAccount tx else kp);
          recipientCompressedKey = tx_recipient tx;
          amt = tx_amount tx * 1000000;
          msg = \<lparr> msg_type = 1, payload = tx_message tx \<rparr>;
          due = (if network env = Testnet then 60 else 24 * 60);
          (ent, n1) =
            constructTransfer env n actualSender recipientCompressedKey amt msg due None None
      in if isMultisig tx then multisigWrapper env n1 kp ent due else (ent, n1))"

subsection \<open>Multisig modifications\<close>

text \<open>
  \<open>Array.prototype.sort\<close> with a comparison function: for a consistent comparison the
  result is the stable sorted arrangement of the array, which is what sorting by
  insertion computes. \<open>x\<close> goes before \<open>y\<close> when the comparison is not positive.
  Both comparison functions of the builder are consistent when the host's
  \<open>localeCompare\<close> is.
\<close>

fun insertBy :: "('a \<Rightarrow> 'a \<Rightarrow> int) \<Rightarrow> 'a \<Rightarrow> 'a list \<Rightarrow> 'a list" where
  "insertBy cmp x [] = [x]"
| "insertBy cmp x (y # ys) = (if cmp x y \<le> 0 then x # y # ys else y # insertBy cmp x ys)"

fun jsSort :: "('a \<Rightarrow> 'a \<Rightarrow> int) \<Rightarrow> 'a list \<Rightarrow> 'a list" where
  "jsSort cmp [] = []"
| "jsSort cmp (x # xs) = insertBy cmp x (jsSort cmp xs)"

text \<open>
  The addresses that \<open>Address.toAddress\<close> returns are compared with \<open><\<close> and \<open>>\<close>
  in \<open>_constructAggregate\<close>: the lexicographic order of the strings by character
  code. \<open>_constructAggregateModifications\<close> compares them with \<open>localeCompare\<close>,
  which is the host's.
\<close>

definition compareByAddress :: "env \<Rightarrow> modification \<Rightarrow> modification \<Rightarrow> int" where
  "compareByAddress env a b =
     (if toAddress env (cosignatoryAccount a) (network env)
           < toAddress env (cosignatoryAccount b) (network env) then - 1
      else if toAddress env (cosignatoryAccount a) (network env)
           > toAddress env (cosignatoryAccount b) (network env) then 1
      else 0)"

text \<open>\<open>a.modificationType - b.modificationType || addressA.localeCompare(addressB)\<close>\<close>

definition compareByTypeThenAddress :: "env \<Rightarrow> modification \<Rightarrow> modification \<Rightarrow> int" where
  "compareByTypeThenAddress env a b =
     (if modificationType a - modificationType b \<noteq> 0
      then modificationType a - modificationType b
      else localeCompare env (toAddress env (cosignatoryAccount a) (network env))
                             (toAddress env (cosignatoryAccount b) (network env)))"

definition constructAggregate ::
  "env \<Rightarrow> nat \<Rightarrow> aggregateTx \<Rightarrow> signatory list \<Rightarrow> entity \<times> nat" where
  "constructAggregate env n tx signatoryArray =
     (let ts = createNEMTimeStamp env n;
          ver = CURRENT_NETWORK_VERSION env 2;
          due = (if network env = Testnet then 60 else 24 * 60);
          d = CREATE_DATA env MultisigModification (multisigPubKey tx) ts due ver;
          total = (10 + 6 * int (length signatoryArray) + 6) * 1000000;
          pushed = map (\<lambda>s. \<lparr> modificationType = 1, cosignatoryAccount = pubKey s \<rparr>)
                     signatoryArray;
          mods = (if length pushed > 1 then jsSort (compareByAddress env) pushed else pushed)
      in (Entity d total
            (AggregateCustom mods (Some \<lparr> relativeChange = minCosigs tx \<rparr>)),
          Suc n))"

definition constructAggregateModifications ::
  "env \<Rightarrow> nat \<Rightarrow> string \<Rightarrow> aggregateTx \<Rightarrow> signatory list \<Rightarrow> entity \<times> nat" where
  "constructAggregateModifications env n senderPublicKey tx signatoryArray =
     (let ts = createNEMTimeStamp env n;
          due = (if network env = Testnet then 60 else 24 * 60);
          ver = (if minCosigs tx = None \<or> minCosigs tx = Some 0
                 then CURRENT_NETWORK_VERSION env 1 else CURRENT_NETWORK_VERSION env 2);
          d = CREATE_DATA env MultisigModification (multisigPubKey tx) ts due ver;
          total = (if minCosigs tx = None \<or> minCosigs tx = Some 0
                   then (10 + 6 * int (length signatoryArray)) * 1000000
                   else (10 + 6 * int (length signatoryArray) + 6) * 1000000);
          minCos = (if minCosigs tx = None \<or> minCosigs tx = Some 0 then None
                    else Some \<lparr> relativeChange = minCosigs tx \<rparr>);
          pushed = map (\<lambda>s. \<lparr> modificationType = sig_type s, cosignatoryAccount = pubKey s \<rparr>)
                     signatoryArray;
          mods = (if length pushed > 1 then jsSort (compareByTypeThenAddress env) pushed
                  else pushed)
      in multisigWrapper env (Suc n) senderPublicKey
           (Entity d total (AggregateCustom mods minCos)) due)"

subsection \<open>Namespaces and mosaics\<close>

definition constructNamespace ::
  "env \<Rightarrow> nat \<Rightarrow> string \<Rightarrow> string \<Rightarrow> int \<Rightarrow> string option \<Rightarrow> string \<Rightarrow> int \<Rightarrow>
   entity \<times> nat" where
  "constructNamespace env n senderPublicKey sink rental namespaceParent namespaceName due =
     (let ts = createNEMTimeStamp env n;
          ver = CURRENT_NETWORK_VERSION env 1;
          d = CREATE_DATA env ProvisionNamespace senderPublicKey ts due ver
      in (Entity d (20 * 1000000)
            (NamespaceCustom (stripDashes (toUpperCase env sink)) rental namespaceParent
               namespaceName),
          Suc n))"

definition prepareNamespace :: "env \<Rightarrow> nat \<Rightarrow> common \<Rightarrow> namespaceTx \<Rightarrow> entity \<times> nat" where
  "prepareNamespace env n cmn tx =
     (let kp = publicKey env (privateKey cmn);
          actualSender = (if isMultisig tx then multisigAccount tx else kp);
          rental = (if ns_namespaceParent tx \<noteq> None then 200 * 1000000 else 5000 * 1000000);
          due = (if network env = Testnet then 60 else 24 * 60);
          (ent, n1) =
            constructNamespace env n actualSender (ns_rentalFeeSink tx) rental
              (ns_namespaceParent tx) (ns_namespaceName tx) due
      in if isMultisig tx then multisigWrapper env n1 kp ent due else (ent, n1))"

definition constructMosaicDefinition ::
  "env \<Rightarrow> nat \<Rightarrow> string \<Rightarrow> string \<Rightarrow> int \<Rightarrow> string \<Rightarrow> string \<Rightarrow> string \<Rightarrow>
   (string \<times> string) list \<Rightarrow> levy option \<Rightarrow> int \<Rightarrow> entity \<times> nat" where
  "constructMosaicDefinition env n senderPublicKey sink rental namespaceParent mosaicName
     mosaicDescription mosaicProperties lv due =
     (let ts = createNEMTimeStamp env n;
          ver = CURRENT_NETWORK_VERSION env 1;
          d = CREATE_DATA env MosaicDefinition senderPublicKey ts due ver;
          levyData =
            (case lv of
               None \<Rightarrow> None
             | Some l \<Rightarrow>
                 Some \<lparr> ld_type = levy_feeType l,
                        ld_recipient = stripDashes (toUpperCase env (levy_address l)),
                        ld_mosaicId = levy_mosaic l,
                        ld_fee = levy_fee l \<rparr>)
      in (Entity d (20 * 1000000)
            (MosaicDefinitionCustom (stripDashes sink) rental
               \<lparr> md_creator = senderPublicKey,
                 md_id = \<lparr> namespaceId = namespaceParent, name = mosaicName \<rparr>,
                 md_description = mosaicDescription,
                 md_properties = mosaicProperties,
                 md_levy = levyData \<rparr>),
          Suc n))"

definition prepareMosaicDefinition ::
  "env \<Rightarrow> nat \<Rightarrow> common \<Rightarrow> mosaicDefinitionTx \<Rightarrow> entity \<times> nat" where
  "prepareMosaicDefinition env n cmn tx =
     (let kp = publicKey env (privateKey cmn);
          actualSender = (if isMultisig tx then multisigAccount tx else kp);
          rental = 500 * 1000000;
          lv = (if levy_mosaic (mdt_levy tx) \<noteq> None then Some (mdt_levy tx) else None);
          due = (if network env = Testnet then 60 else 24 * 60);
          (ent, n1) =
            constructMosaicDefinition env n actualSender (mdt_mosaicFeeSink tx) rental
              (mdt_namespaceParent tx) (mdt_mosaicName tx) (mdt_mosaicDescription tx)
              (mdt_properties tx) lv due
      in if isMultisig tx then multisigWrapper env n1 kp ent due else (ent, n1))"

definition constructMosaicSupply ::
  "env \<Rightarrow> nat \<Rightarrow> string \<Rightarrow> mosaicId \<Rightarrow> int \<Rightarrow> int \<Rightarrow> int \<Rightarrow> entity \<times> nat" where
  "constructMosaicSupply env n senderPublicKey mid sType dlt due =
     (let ts = createNEMTimeStamp env n;
          ver = CURRENT_NETWORK_VERSION env 1;
          d = CREATE_DATA env MosaicSupply senderPublicKey ts due ver
      in (Entity d (20 * 1000000) (MosaicSupplyCustom mid sType dlt), Suc n))"

definition prepareMosaicSupply ::
  "env \<Rightarrow> nat \<Rightarrow> common \<Rightarrow> mosaicSupplyTx \<Rightarrow> entity \<times> nat" where
  "prepareMosaicSupply env n cmn tx =
     (let kp = publicKey env (privateKey cmn);
          actualSender = (if isMultisig tx then multisigAccount tx else kp);
          due = (if network env = Testnet then 60 else 24 * 60);
          (ent, n1) =
            constructMosaicSupply env n actualSender (st_mosaic tx) (st_supplyType tx)
              (st_delta tx) due
      in if isMultisig tx then multisigWrapper env n1 kp ent due else (ent, n1))"

subsection \<open>Importance transfer and multisig signature\<close>

definition constructImportanceTransfer ::
  "env \<Rightarrow> nat \<Rightarrow> string \<Rightarrow> string \<Rightarrow> int \<Rightarrow> int \<Rightarrow> entity \<times> nat" where
  "constructImportanceTransfer env n senderPublicKey recipientKey md due =
     (let ts = createNEMTimeStamp env n;
          ver = CURRENT_NETWORK_VERSION env 1;
          d = CREATE_DATA env ImportanceTransfer senderPublicKey ts due ver
      in (Entity d 6000000 (ImportanceTransferCustom recipientKey md), Suc n))"

definition prepareImportanceTransfer ::
  "env \<Rightarrow> nat \<Rightarrow> common \<Rightarrow> importanceTx \<Rightarrow> entity \<times> nat" where
  "prepareImportanceTransfer env n cmn tx =
     (let kp = publicKey env (privateKey cmn);
          actualSender = (if isMultisig tx then multisigAccount tx else kp);
          due = (if network env = Testnet then 60 else 24 * 60);
          (ent, n1) =
            constructImportanceTransfer env n actualSender (it_remoteAccount tx) (it_mode tx) due
      in if isMultisig tx then multisigWrapper env n1 kp ent due else (ent, n1))"

definition constructSignature ::
  "env \<Rightarrow> nat \<Rightarrow> string \<Rightarrow> string \<Rightarrow> string \<Rightarrow> int \<Rightarrow> entity \<times> nat" where
  "constructSignature env n senderPublicKey otherAcc otherHsh due =
     (let ts = createNEMTimeStamp env n;
          ver = CURRENT_NETWORK_VERSION env 1;
          d = CREATE_DATA env MultisigSignature senderPublicKey ts due ver;
          total = (2 * 3) * 1000000
      in (Entity d total (SignatureCustom otherHsh otherAcc), Suc n))"

text \<open>
  \<open>prepareSignature\<close> up to the entity it hands to \<open>Serialization\<close>; signing and
  announcing are outside the builder.
\<close>

definition prepareSignature :: "env \<Rightarrow> nat \<Rightarrow> common \<Rightarrow> signatureTx \<Rightarrow> entity \<times> nat" where
  "prepareSignature env n cmn tx =
     (let kp = publicKey env (privateKey cmn);
          actualSender = kp;
          due = (if network env = Testnet then 60 else 24 * 60)
      in constructSignature env n actualSender (sg_multisigAccountAddress tx) (sg_hash tx) due)"

subsection \<open>The builders as one function\<close>

text \<open>
  The methods of the class that return a finished transaction, one constructor per
  method, so that a statement about every built transaction can be made once.
\<close>

datatype request =
    PrepareTransfer common transferTx registry
  | PrepareApostilleTransfer common transferTx
  | PrepareNamespace common namespaceTx
  | PrepareMosaicDefinition common mosaicDefinitionTx
  | PrepareMosaicSupply common mosaicSupplyTx
  | PrepareImportanceTransfer common importanceTx
  | PrepareSignature common signatureTx
  | ConstructAggregate aggregateTx "signatory list"
  | ConstructAggregateModifications string aggregateTx "signatory list"

fun build :: "env \<Rightarrow> nat \<Rightarrow> request \<Rightarrow> entity \<times> nat" where
  "build env n (PrepareTransfer cmn tx reg) = prepareTransfer env n cmn tx reg"
| "build env n (PrepareApostilleTransfer cmn tx) = prepareApostilleTransfer env n cmn tx"
| "build env n (PrepareNamespace cmn tx) = prepareNamespace env n cmn tx"
| "build env n (PrepareMosaicDefinition cmn tx) = prepareMosaicDefinition env n cmn tx"
| "build env n (PrepareMosaicSupply cmn tx) = prepareMosaicSupply env n cmn tx"
| "build env n (PrepareImportanceTransfer cmn tx) = prepareImportanceTransfer env n cmn tx"
| "build env n (PrepareSignature cmn tx) = prepareSignature env n cmn tx"
| "build env n (ConstructAggregate tx sigs) = constructAggregate env n tx sigs"
| "build env n (ConstructAggregateModifications sender tx sigs) =
     constructAggregateModifications env n sender tx sigs"

text \<open>A transaction together with the transactions wrapped inside it.\<close>

fun entities :: "entity \<Rightarrow> entity list"
  and wrapped :: "custom \<Rightarrow> entity list" where
  "entities (Entity d f c) = Entity d f c # wrapped c"
| "wrapped (MultisigCustom e) = entities e"
| "wrapped (TransferCustom r a m ms) = []"
| "wrapped (NamespaceCustom s r p np) = []"
| "wrapped (MosaicDefinitionCustom s c md) = []"
| "wrapped (MosaicSupplyCustom i t dl) = []"
| "wrapped (ImportanceTransferCustom r m) = []"
| "wrapped (AggregateCustom ms mc) = []"
| "wrapped (SignatureCustom h a) = []"

subsection \<open>The specification's vocabulary\<close>

text \<open>The version prefix as the specification tabulates it.\<close>

definition networkVersionPrefix :: "network \<Rightarrow> 32 word" where
  "networkVersionPrefix net =
     (case net of
        Mainnet \<Rightarrow> 0x68000000
      | Testnet \<Rightarrow> 0x98000000
      | OtherNetwork \<Rightarrow> 0x60000000)"

text \<open>
  The canonical order of cosignatory modifications: by operation code, and for equal
  codes by the address of the cosignatory key under the wallet's network, addresses
  taken in the order of their character codes (the order of \<open><\<close> on strings).
\<close>

definition canonicalOrder :: "env \<Rightarrow> modification \<Rightarrow> modification \<Rightarrow> bool" where
  "canonicalOrder env a b \<longleftrightarrow>
     modificationType a < modificationType b \<or>
     (modificationType a = modificationType b \<and>
      toAddress env (cosignatoryAccount a) (network env)
        \<le> toAddress env (cosignatoryAccount b) (network env))"

text \<open>The modification list of a transaction, looked up through multisig wrappers.\<close>

fun modificationsOf :: "entity \<Rightarrow> modification list option" where
  "modificationsOf (Entity d f (AggregateCustom mods mc)) = Some mods"
| "modificationsOf (Entity d f (MultisigCustom e)) = modificationsOf e"
| "modificationsOf (Entity d f c) = None"

text \<open>The transaction inside all multisig wrappers.\<close>

fun innermost :: "entity \<Rightarrow> entity" where
  "innermost (Entity d f (MultisigCustom e)) = innermost e"
| "innermost (Entity d f c) = Entity d f c"

text \<open>Every attachment of a list names an asset of the registry.\<close>

definition assetsKnown :: "env \<Rightarrow> registry \<Rightarrow> mosaicAttachment list \<Rightarrow> bool" where
  "assetsKnown env reg ms =
     list_all (\<lambda>m. reg (mosaicIdToName env (att_mosaicId m)) \<noteq> None) ms"





subsection \<open>Concrete inputs\<close>

text \<open>
  A wallet on the test network whose clock advances by one second between two reads.
  The helpers are stand-ins: names are \<open>namespace:name\<close>, keys and addresses are
  left as they are, the minimum fee is 1, and the host's collation is the order of
  the character codes.
\<close>

definition exampleEnv :: env where
  "exampleEnv =
     \<lparr> network = Testnet,
       createNEMTimeStamp = (\<lambda>k. 1000 + int k),
       calcMinFee = (\<lambda>x. 1),
       calcXemEquivalent = (\<lambda>m q s d. 0),
       mosaicIdToName = (\<lambda>i. namespaceId i @ '':'' @ name i),
       prepareMessage = (\<lambda>c t. \<lparr> msg_type = 1, payload = tx_message t \<rparr>),
       toAddress = (\<lambda>k net. k),
       publicKey = (\<lambda>k. k),
       toUpperCase = (\<lambda>s. s),
       localeCompare = (\<lambda>s t. if s < t then - 1 else if t < s then 1 else 0) \<rparr>"

definition exampleCommon :: common where
  "exampleCommon = \<lparr> privateKey = ''K'' \<rparr>"

definition smallBusinessPair :: mosaicDefinitionMetaDataPair where
  "smallBusinessPair =
     \<lparr> properties = [\<lparr> prop_name = ''divisibility'', prop_value = 0 \<rparr>],
       mosaic_supply = 5000 \<rparr>"

definition oversuppliedPair :: mosaicDefinitionMetaDataPair where
  "oversuppliedPair =
     \<lparr> properties = [\<lparr> prop_name = ''divisibility'', prop_value = 6 \<rparr>],
       mosaic_supply = 10000000000 \<rparr>"

definition exampleRegistry :: registry where
  "exampleRegistry =
     [''shop:token'' \<mapsto> smallBusinessPair, ''big:coin'' \<mapsto> oversuppliedPair]"

definition tokenAttachment :: mosaicAttachment where
  "tokenAttachment =
     \<lparr> att_mosaicId = \<lparr> namespaceId = ''shop'', name = ''token'' \<rparr>, quantity = 10 \<rparr>"

definition coinAttachment :: mosaicAttachment where
  "coinAttachment =
     \<lparr> att_mosaicId = \<lparr> namespaceId = ''big'', name = ''coin'' \<rparr>, quantity = 1000 \<rparr>"

definition ghostAttachment :: mosaicAttachment where
  "ghostAttachment =
     \<lparr> att_mosaicId = \<lparr> namespaceId = ''no'', name = ''such'' \<rparr>, quantity = 1 \<rparr>"

definition ghostTransferTx :: transferTx where
  "ghostTransferTx =
     \<lparr> isMultisig = False, multisigAccount = [],
       tx_recipient = ''TA-BC'', tx_amount = 1, tx_message = [],
       tx_mosaics = Some [tokenAttachment, ghostAttachment] \<rparr>"

definition ghostOnlyTx :: transferTx where
  "ghostOnlyTx =
     \<lparr> isMultisig = False, multisigAccount = [],
       tx_recipient = ''TABC'', tx_amount = 0, tx_message = [],
       tx_mosaics = Some [ghostAttachment] \<rparr>"

definition multisigTransferTx :: transferTx where
  "multisigTransferTx =
     \<lparr> isMultisig = True, multisigAccount = ''M'',
       tx_recipient = ''TABC'', tx_amount = 1, tx_message = ''abcd'',
       tx_mosaics = None \<rparr>"

definition tokenTransferTx :: transferTx where
  "tokenTransferTx =
     \<lparr> isMultisig = True, multisigAccount = ''M'',
       tx_recipient = ''TABC'', tx_amount = 1, tx_message = [],
       tx_mosaics = Some [tokenAttachment] \<rparr>"

definition exampleAggregateTx :: aggregateTx where
  "exampleAggregateTx = \<lparr> multisigPubKey = ''M'', minCosigs = Some 1 \<rparr>"

definition duplicateSignatories :: "signatory list" where
  "duplicateSignatories =
     [\<lparr> sig_type = 1, pubKey = ''TB'' \<rparr>, \<lparr> sig_type = 1, pubKey = ''TB'' \<rparr>]"




text \<open>
  The same wallet on a host whose default locale is Czech. On the upper-case letters and
  digits of addresses its collation puts digits before letters, letters in alphabetical
  order, and the digraph CH as one letter between H and I.
\<close>

fun czechKey :: "string \<Rightarrow> nat list" where
  "czechKey [] = []"
| "czechKey [c] = [2 * of_char c]"
| "czechKey (c # d # cs) =
     (if c = CHR ''C'' \<and> d = CHR ''H'' then (2 * of_char (CHR ''H'') + 1) # czechKey cs
      else 2 * of_char c # czechKey (d # cs))"

definition czechCompare :: "string \<Rightarrow> string \<Rightarrow> int" where
  "czechCompare s t =
     (if czechKey s < czechKey t then - 1 else if czechKey t < czechKey s then 1 else 0)"

definition czechEnv :: env where
  "czechEnv = exampleEnv\<lparr> localeCompare := czechCompare \<rparr>"

definition czechSignatories :: "signatory list" where
  "czechSignatories =
     [\<lparr> sig_type = 1, pubKey = ''TCH'' \<rparr>, \<lparr> sig_type = 1, pubKey = ''TCZ'' \<rparr>]"

section \<open>Properties\<close>

lemmas construct_defs =
  constructTransfer_def constructNamespace_def constructMosaicDefinition_def
  constructMosaicSupply_def constructImportanceTransfer_def constructSignature_def
  constructAggregate_def constructAggregateModifications_def multisigWrapper_def

lemmas prepare_defs =
  prepareTransfer_def prepareApostilleTransfer_def prepareNamespace_def
  prepareMosaicDefinition_def prepareMosaicSupply_def prepareImportanceTransfer_def
  prepareSignature_def

subsection \<open>Version and deadline of the common header\<close>

lemma version_prefix:
  "CURRENT_NETWORK_VERSION env v = networkVersionPrefix (network env) OR v"
  by (cases "network env") (simp_all add: CURRENT_NETWORK_VERSION_def networkVersionPrefix_def)

lemma version_nonzero: "v = 1 \<or> v = 2 \<Longrightarrow> CURRENT_NETWORK_VERSION env v \<noteq> 0"
  by (cases "network env") (auto simp add: CURRENT_NETWORK_VERSION_def)

text \<open>
  C7. Every transaction a builder returns, and every transaction wrapped inside it, has
  \<open>deadline = timeStamp + dueMinutes * 60\<close>, with \<open>dueMinutes\<close> 60 on the test
  network and 1440 on any other.
\<close>

theorem deadline_is_timestamp_plus_due:
  "\<forall>e \<in> set (entities (fst (build env n req))).
     deadline (header e)
       = timeStamp (header e) + (if network env = Testnet then 60 else 1440) * 60"
  by (cases req) (simp_all add: prepare_defs construct_defs CREATE_DATA_def Let_def)

theorem deadline_is_timestamp_plus_due_witness:
  "fst (build exampleEnv 0 (PrepareTransfer exampleCommon multisigTransferTx exampleRegistry))
     \<in> set (entities
          (fst (build exampleEnv 0
                 (PrepareTransfer exampleCommon multisigTransferTx exampleRegistry))))
   \<and> timeStamp (header (fst (build exampleEnv 0
          (PrepareTransfer exampleCommon multisigTransferTx exampleRegistry)))) = 1001
   \<and> deadline (header (fst (build exampleEnv 0
          (PrepareTransfer exampleCommon multisigTransferTx exampleRegistry)))) = 1001 + 60 * 60"
  using deadline_is_timestamp_plus_due
    [of exampleEnv 0 "PrepareTransfer exampleCommon multisigTransferTx exampleRegistry"]
  by (simp add: prepareTransfer_def constructTransfer_def multisigWrapper_def CREATE_DATA_def
      Let_def exampleEnv_def multisigTransferTx_def)

text \<open>
  C8. The version of every built transaction is the prefix of the wallet's network
  (0x68000000 main, 0x98000000 test, 0x60000000 otherwise) OR-ed with schema version 1
  or 2; the transfer that \<open>prepareTransfer\<close> builds has schema version 2 exactly when
  the intent carries a list of attachments (an empty list counts, a missing one does
  not), and the transfer of \<open>prepareApostilleTransfer\<close>, which never has one, has
  schema version 1.
\<close>

theorem version_is_prefix_or_schema:
  "(\<forall>e \<in> set (entities (fst (build env n req))).
      version (header e) = networkVersionPrefix (network env) OR 1 \<or>
      version (header e) = networkVersionPrefix (network env) OR 2)
   \<and> txtype (header (innermost (fst (prepareTransfer env n cmn tx reg)))) = Transfer
   \<and> version (header (innermost (fst (prepareTransfer env n cmn tx reg))))
       = networkVersionPrefix (network env) OR (if tx_mosaics tx \<noteq> None then 2 else 1)
   \<and> version (header (innermost (fst (prepareApostilleTransfer env n cmn tx))))
       = networkVersionPrefix (network env) OR 1"
proof -
  have all: "\<forall>e \<in> set (entities (fst (build env n req))).
      version (header e) = networkVersionPrefix (network env) OR 1 \<or>
      version (header e) = networkVersionPrefix (network env) OR 2"
    by (cases req)
       (simp_all add: prepare_defs construct_defs CREATE_DATA_def Let_def version_nonzero
          version_prefix [symmetric])
  have kind: "txtype (header (innermost (fst (prepareTransfer env n cmn tx reg)))) = Transfer"
    by (simp add: prepareTransfer_def constructTransfer_def multisigWrapper_def CREATE_DATA_def
        Let_def)
  have transfer: "version (header (innermost (fst (prepareTransfer env n cmn tx reg))))
       = networkVersionPrefix (network env) OR (if tx_mosaics tx \<noteq> None then 2 else 1)"
    by (simp add: prepareTransfer_def constructTransfer_def multisigWrapper_def CREATE_DATA_def
        Let_def version_nonzero version_prefix [symmetric])
  have apostille: "version (header (innermost (fst (prepareApostilleTransfer env n cmn tx))))
       = networkVersionPrefix (network env) OR 1"
    by (simp add: prepareApostilleTransfer_def constructTransfer_def multisigWrapper_def
        CREATE_DATA_def Let_def version_nonzero version_prefix [symmetric])
  from all kind transfer apostille show ?thesis by blast
qed

theorem version_is_prefix_or_schema_witness:
  "fst (build exampleEnv 0 (PrepareTransfer exampleCommon tokenTransferTx exampleRegistry))
     \<in> set (entities
          (fst (build exampleEnv 0
                 (PrepareTransfer exampleCommon tokenTransferTx exampleRegistry))))
   \<and> version (header (fst (build exampleEnv 0
          (PrepareTransfer exampleCommon tokenTransferTx exampleRegistry)))) = 0x98000000 OR 1
   \<and> version (header (innermost (fst
          (prepareTransfer exampleEnv 0 exampleCommon tokenTransferTx exampleRegistry))))
       = 0x98000000 OR 2"
  using version_is_prefix_or_schema
    [where env = exampleEnv and n = 0
       and req = "PrepareTransfer exampleCommon tokenTransferTx exampleRegistry"
       and cmn = exampleCommon and tx = tokenTransferTx and reg = exampleRegistry]
  by (simp add: prepareTransfer_def constructTransfer_def multisigWrapper_def CREATE_DATA_def
      CURRENT_NETWORK_VERSION_def Let_def exampleEnv_def tokenTransferTx_def)

subsection \<open>Message fee\<close>

text \<open>
  C9. The fee of the transfer that \<open>_constructTransfer\<close> returns is the message fee
  plus the transfer or attachment fee, in millionths; the message fee in it is 0 for an
  empty payload and otherwise \<open>max(1, floor(length / 2 / 32) + 1)\<close>, the length
  counted in characters of the payload, and the floor of the two divisions is the
  integer quotient.
\<close>

theorem transfer_fee_has_message_fee:
  "fee (fst (constructTransfer env n sender rcpt amt msg due mos mosaicsFee))
     = ((if payload msg = [] then 0
         else max 1 (\<lfloor>real (length (payload msg)) / 2 / 32\<rfloor> + 1))
        + (if mos \<noteq> None then (case mosaicsFee of None \<Rightarrow> 0 | Some v \<Rightarrow> v)
           else calcMinFee env (amt / 1000000))) * 1000000
   \<and> \<lfloor>real (length (payload msg)) / 2 / 32\<rfloor> = int (length (payload msg) div 2 div 32)"
proof -
  have "\<lfloor>real (length (payload msg)) / 2 / 32\<rfloor> = int (length (payload msg) div 64)"
    using floor_divide_of_nat_eq [of "length (payload msg)" 64, where 'a = real] by simp
  then show ?thesis
    by (simp add: constructTransfer_def msgFee_def Let_def div_mult2_eq [of _ 2 32, simplified])
qed

subsection \<open>Multisig wrapping\<close>

text \<open>
  C2, as the code has it. In a multisig-wrapped construction the inner entity and the
  wrapper use the same \<open>due\<close>, but each reads the network time itself, the inner
  entity first and the wrapper second: each deadline is its own time stamp plus
  \<open>due * 60\<close>, and the two deadlines are equal exactly when the two reads return the
  same value.
\<close>

theorem multisig_headers_read_clock_twice:
  assumes "fst (build env n req) = Entity d f (MultisigCustom inner)"
  shows "timeStamp (header inner) = createNEMTimeStamp env n
     \<and> timeStamp d = createNEMTimeStamp env (Suc n)
     \<and> deadline (header inner)
         = timeStamp (header inner) + (if network env = Testnet then 60 else 1440) * 60
     \<and> deadline d = timeStamp d + (if network env = Testnet then 60 else 1440) * 60
     \<and> (deadline d = deadline (header inner)
          \<longleftrightarrow> createNEMTimeStamp env (Suc n) = createNEMTimeStamp env n)"
  using assms
  by (cases req)
     (auto simp add: prepare_defs construct_defs CREATE_DATA_def Let_def split: if_splits)

theorem multisig_headers_read_clock_twice_witness:
  "fst (build exampleEnv 0 (PrepareTransfer exampleCommon multisigTransferTx exampleRegistry))
     = Entity
         \<lparr> txtype = MultisigTransaction, version = 0x98000001, signer = ''K'',
           timeStamp = 1001, deadline = 4601 \<rparr>
         6000000
         (MultisigCustom
            (Entity
               \<lparr> txtype = Transfer, version = 0x98000001, signer = ''M'',
                 timeStamp = 1000, deadline = 4600 \<rparr>
               2000000
               (TransferCustom ''TABC'' 1000000 \<lparr> msg_type = 1, payload = ''abcd'' \<rparr> None)))
   \<and> createNEMTimeStamp exampleEnv (Suc 0) \<noteq> createNEMTimeStamp exampleEnv 0"
proof -
  have built:
    "fst (build exampleEnv 0 (PrepareTransfer exampleCommon multisigTransferTx exampleRegistry))
     = Entity
         \<lparr> txtype = MultisigTransaction, version = 0x98000001, signer = ''K'',
           timeStamp = 1001, deadline = 4601 \<rparr>
         6000000
         (MultisigCustom
            (Entity
               \<lparr> txtype = Transfer, version = 0x98000001, signer = ''M'',
                 timeStamp = 1000, deadline = 4600 \<rparr>
               2000000
               (TransferCustom ''TABC'' 1000000 \<lparr> msg_type = 1, payload = ''abcd'' \<rparr> None)))"
    by (simp add: prepareTransfer_def constructTransfer_def multisigWrapper_def CREATE_DATA_def
        CURRENT_NETWORK_VERSION_def Let_def exampleEnv_def multisigTransferTx_def
        exampleCommon_def msgFee_def jsRound_def stripDashes_def)
  from multisig_headers_read_clock_twice [OF built] built show ?thesis
    by (simp add: exampleEnv_def)
qed

text \<open>
  C2 as stated fails: with a clock that advances between the two reads, the wrapper of a
  multisig transfer is stamped 1001 and the transfer inside it 1000, and so are the
  deadlines one second apart.
\<close>

theorem multisig_timestamps_differ:
  "timeStamp (header (fst (prepareTransfer exampleEnv 0 exampleCommon multisigTransferTx
       exampleRegistry))) = 1001
   \<and> timeStamp (header (innermost (fst (prepareTransfer exampleEnv 0 exampleCommon
       multisigTransferTx exampleRegistry)))) = 1000
   \<and> deadline (header (fst (prepareTransfer exampleEnv 0 exampleCommon multisigTransferTx
       exampleRegistry))) = 4601
   \<and> deadline (header (innermost (fst (prepareTransfer exampleEnv 0 exampleCommon
       multisigTransferTx exampleRegistry)))) = 4600"
  by (simp add: prepareTransfer_def constructTransfer_def multisigWrapper_def CREATE_DATA_def
      Let_def exampleEnv_def multisigTransferTx_def)

subsection \<open>Sorting the modifications\<close>

lemma mset_insertBy: "mset (insertBy cmp x xs) = add_mset x (mset xs)"
  by (induction xs) simp_all

lemma mset_jsSort: "mset (jsSort cmp xs) = mset xs"
  by (induction xs) (simp_all add: mset_insertBy)

lemma set_insertBy: "set (insertBy cmp x xs) = insert x (set xs)"
  by (induction xs) auto

lemma set_jsSort: "set (jsSort cmp xs) = set xs"
  by (induction xs) (simp_all add: set_insertBy)

lemma length_jsSort: "length (jsSort cmp xs) = length xs"
  using mset_jsSort [of cmp xs] by (metis size_mset)

lemma sorted_insertBy:
  assumes total: "\<And>a b. R a b \<or> R b a"
    and trans: "\<And>a b c. R a b \<Longrightarrow> R b c \<Longrightarrow> R a c"
    and cmp: "\<And>a b. cmp a b \<le> 0 \<longleftrightarrow> R a b"
    and srt: "sorted_wrt R xs"
  shows "sorted_wrt R (insertBy cmp x xs)"
  using srt
proof (induction xs)
  case Nil
  then show ?case by simp
next
  case (Cons y ys)
  show ?case
  proof (cases "cmp x y \<le> 0")
    case True
    then have xy: "R x y" using cmp by simp
    have "\<forall>z \<in> set ys. R y z" using Cons.prems by simp
    with xy have "\<forall>z \<in> set ys. R x z" using trans by blast
    with True xy Cons.prems show ?thesis by simp
  next
    case False
    then have "\<not> R x y" using cmp by simp
    then have yx: "R y x" using total by blast
    with False Cons show ?thesis by (auto simp: set_insertBy)
  qed
qed

lemma sorted_jsSort:
  assumes "\<And>a b. R a b \<or> R b a"
    and "\<And>a b c. R a b \<Longrightarrow> R b c \<Longrightarrow> R a c"
    and "\<And>a b. cmp a b \<le> 0 \<longleftrightarrow> R a b"
  shows "sorted_wrt R (jsSort cmp xs)"
  by (induction xs) (simp_all add: sorted_insertBy [where R = R, OF assms])

lemma canonicalOrder_total: "canonicalOrder env a b \<or> canonicalOrder env b a"
  by (auto simp: canonicalOrder_def)

lemma canonicalOrder_trans:
  "canonicalOrder env a b \<Longrightarrow> canonicalOrder env b c \<Longrightarrow> canonicalOrder env a c"
  by (auto simp: canonicalOrder_def)

lemma compareByTypeThenAddress_le:
  assumes "\<And>s t. localeCompare env s t \<le> 0 \<longleftrightarrow> s \<le> t"
  shows "compareByTypeThenAddress env a b \<le> 0 \<longleftrightarrow> canonicalOrder env a b"
  using assms by (auto simp: compareByTypeThenAddress_def canonicalOrder_def)

lemma compareByAddress_le:
  "compareByAddress env a b \<le> 0 \<longleftrightarrow>
   toAddress env (cosignatoryAccount a) (network env)
     \<le> toAddress env (cosignatoryAccount b) (network env)"
  by (auto simp: compareByAddress_def)

lemma sorted_by_address:
  "sorted_wrt (\<lambda>a b. toAddress env (cosignatoryAccount a) (network env)
                       \<le> toAddress env (cosignatoryAccount b) (network env))
     (jsSort (compareByAddress env) xs)"
  by (rule sorted_jsSort) (auto simp: compareByAddress_le)

lemma sorted_canonical_of_address:
  assumes "\<forall>m \<in> set xs. modificationType m = k"
  shows "sorted_wrt (canonicalOrder env) (jsSort (compareByAddress env) xs)"
proof -
  have "\<forall>m \<in> set (jsSort (compareByAddress env) xs). modificationType m = k"
    using assms by (simp add: set_jsSort)
  then show ?thesis
    using sorted_by_address [of env xs]
    by (auto simp: canonicalOrder_def elim!: sorted_wrt_mono_rel [rotated])
qed

lemma sorted_canonical:
  assumes "\<And>s t. localeCompare env s t \<le> 0 \<longleftrightarrow> s \<le> t"
  shows "sorted_wrt (canonicalOrder env) (jsSort (compareByTypeThenAddress env) xs)"
  by (rule sorted_jsSort)
     (auto simp: compareByTypeThenAddress_le [OF assms] canonicalOrder_total
        intro: canonicalOrder_trans)

lemma sorted_wrt_short: "\<not> 1 < length xs \<Longrightarrow> sorted_wrt R xs"
  by (cases xs) auto

lemma modificationsOf_constructAggregateModifications:
  "modificationsOf (fst (constructAggregateModifications env n sender tx sigs))
   = Some (let pushed = map (\<lambda>s. \<lparr> modificationType = sig_type s,
                                    cosignatoryAccount = pubKey s \<rparr>) sigs
           in if length pushed > 1 then jsSort (compareByTypeThenAddress env) pushed
              else pushed)"
  by (simp add: constructAggregateModifications_def multisigWrapper_def Let_def)

lemma modificationsOf_constructAggregate:
  "modificationsOf (fst (constructAggregate env n tx sigs))
   = Some (let pushed = map (\<lambda>s. \<lparr> modificationType = 1, cosignatoryAccount = pubKey s \<rparr>) sigs
           in if length pushed > 1 then jsSort (compareByAddress env) pushed else pushed)"
  by (simp add: constructAggregate_def Let_def)

text \<open>
  \<open>_constructAggregate\<close> returns its modifications in the canonical order, and so does
  \<open>_constructAggregateModifications\<close> on a host whose \<open>localeCompare\<close> agrees with the
  order of the character codes.
\<close>

lemma modifications_sorted_when_collation_agrees:
  "(\<exists>mods. modificationsOf (fst (constructAggregate env n tx sigs)) = Some mods
      \<and> mset mods = mset (map (\<lambda>s. \<lparr> modificationType = 1,
                                       cosignatoryAccount = pubKey s \<rparr>) sigs)
      \<and> sorted_wrt (canonicalOrder env) mods)
   \<and> ((\<forall>s t. localeCompare env s t \<le> 0 \<longleftrightarrow> s \<le> t) \<longrightarrow>
       (\<exists>mods. modificationsOf (fst (constructAggregateModifications env n sender tx sigs))
                 = Some mods
          \<and> mset mods = mset (map (\<lambda>s. \<lparr> modificationType = sig_type s,
                                           cosignatoryAccount = pubKey s \<rparr>) sigs)
          \<and> sorted_wrt (canonicalOrder env) mods))"
proof -
  have "sorted_wrt (canonicalOrder env)
          (jsSort (compareByAddress env)
             (map (\<lambda>s. \<lparr> modificationType = 1, cosignatoryAccount = pubKey s \<rparr>) sigs))"
    by (rule sorted_canonical_of_address [where k = 1]) auto
  then show ?thesis
    by (simp add: modificationsOf_constructAggregateModifications
        modificationsOf_constructAggregate Let_def mset_jsSort sorted_canonical
        sorted_wrt_short)
qed

text \<open>
  C5 at a failing input. On a host whose default locale is Czech, two modifications of
  type 1 for the addresses TCH and TCZ come back from \<open>_constructAggregateModifications\<close>
  as TCZ, TCH, since \<open>localeCompare\<close> takes CH for one letter after H: the list is not
  non-decreasing by address. \<open>_constructAggregate\<close>, which compares with \<open><\<close> and
  \<open>>\<close>, returns TCH, TCZ for the same signatories.
\<close>

theorem modifications_order_follows_host_locale:
  "modificationsOf (fst (constructAggregateModifications czechEnv 0 ''K'' exampleAggregateTx
       czechSignatories))
     = Some [\<lparr> modificationType = 1, cosignatoryAccount = ''TCZ'' \<rparr>,
             \<lparr> modificationType = 1, cosignatoryAccount = ''TCH'' \<rparr>]
   \<and> \<not> sorted_wrt (canonicalOrder czechEnv)
         [\<lparr> modificationType = 1, cosignatoryAccount = ''TCZ'' \<rparr>,
          \<lparr> modificationType = 1, cosignatoryAccount = ''TCH'' \<rparr>]
   \<and> modificationsOf (fst (constructAggregate czechEnv 0 exampleAggregateTx czechSignatories))
     = Some [\<lparr> modificationType = 1, cosignatoryAccount = ''TCH'' \<rparr>,
             \<lparr> modificationType = 1, cosignatoryAccount = ''TCZ'' \<rparr>]"
  by (simp add: constructAggregateModifications_def constructAggregate_def
      multisigWrapper_def Let_def czechEnv_def exampleEnv_def czechSignatories_def
      compareByTypeThenAddress_def compareByAddress_def canonicalOrder_def czechCompare_def)

text \<open>
  C10. \<open>_constructAggregate\<close> gives every modification the type 1, whatever type the
  signatory entries carry, one modification per entry; \<open>_constructAggregateModifications\<close>
  copies the types of the entries.
\<close>

theorem constructAggregate_all_add:
  "(\<exists>mods. modificationsOf (fst (constructAggregate env n tx sigs)) = Some mods
      \<and> length mods = length sigs
      \<and> list_all (\<lambda>m. modificationType m = 1) mods)
   \<and> (\<exists>mods. modificationsOf (fst (constructAggregateModifications env n sender tx sigs))
               = Some mods
      \<and> mset (map modificationType mods) = mset (map sig_type sigs))"
proof -
  let ?ones = "map (\<lambda>s. \<lparr> modificationType = 1, cosignatoryAccount = pubKey s \<rparr>) sigs"
  let ?pushed = "map (\<lambda>s. \<lparr> modificationType = sig_type s,
                              cosignatoryAccount = pubKey s \<rparr>) sigs"
  have "list_all (\<lambda>m. modificationType m = 1) (jsSort (compareByAddress env) ?ones)"
    by (simp add: list_all_iff set_jsSort)
  moreover have "list_all (\<lambda>m. modificationType m = 1) ?ones"
    by (simp add: list_all_iff)
  moreover have "mset (map modificationType (jsSort (compareByTypeThenAddress env) ?pushed))
                 = image_mset modificationType (mset ?pushed)"
    by (simp add: mset_jsSort)
  moreover have "image_mset modificationType (mset ?pushed) = mset (map sig_type sigs)"
    by (simp add: comp_def multiset.map_comp)
  ultimately show ?thesis
    by (simp add: modificationsOf_constructAggregateModifications
        modificationsOf_constructAggregate Let_def length_jsSort comp_def)
qed

text \<open>
  C6, as the code has it. The builder makes no check for duplicate cosignatory keys:
  from a signatory list with a repeated key it returns a transaction whose modification
  list has as many entries as the input and repeats the key as well.
\<close>

theorem duplicate_cosignatories_kept:
  assumes dup: "\<not> distinct (map pubKey sigs)"
  shows "\<exists>mods. modificationsOf (fst (constructAggregateModifications env n sender tx sigs))
                  = Some mods
           \<and> length mods = length sigs
           \<and> mset (map cosignatoryAccount mods) = mset (map pubKey sigs)
           \<and> \<not> distinct (map cosignatoryAccount mods)"
proof -
  define pushed where
    "pushed = map (\<lambda>s. \<lparr> modificationType = sig_type s, cosignatoryAccount = pubKey s \<rparr>) sigs"
  define mods where
    "mods = (if length pushed > 1 then jsSort (compareByTypeThenAddress env) pushed
             else pushed)"
  have built: "modificationsOf (fst (constructAggregateModifications env n sender tx sigs))
               = Some mods"
    by (simp add: modificationsOf_constructAggregateModifications Let_def mods_def pushed_def)
  have m: "mset mods = mset pushed"
    by (simp add: mods_def mset_jsSort)
  have keys: "map cosignatoryAccount pushed = map pubKey sigs"
    by (simp add: pushed_def comp_def)
  have "image_mset cosignatoryAccount (mset mods) = image_mset cosignatoryAccount (mset pushed)"
    by (simp only: m)
  then have "mset (map cosignatoryAccount mods) = mset (map cosignatoryAccount pushed)"
    by (simp only: mset_map)
  then have k: "mset (map cosignatoryAccount mods) = mset (map pubKey sigs)"
    by (simp only: keys)
  have "length mods = length pushed"
    using m by (rule mset_eq_length)
  then have l: "length mods = length sigs"
    by (simp add: pushed_def)
  have "distinct (map cosignatoryAccount mods) \<longleftrightarrow> distinct (map pubKey sigs)"
    using k by (rule mset_eq_imp_distinct_iff)
  then have "\<not> distinct (map cosignatoryAccount mods)"
    using dup by simp
  with built l k show ?thesis by blast
qed

theorem duplicate_cosignatories_kept_witness:
  "\<not> distinct (map pubKey duplicateSignatories)
   \<and> (\<exists>mods. modificationsOf (fst (constructAggregateModifications exampleEnv 0 ''K''
                  exampleAggregateTx duplicateSignatories)) = Some mods
        \<and> length mods = length duplicateSignatories
        \<and> mset (map cosignatoryAccount mods) = mset (map pubKey duplicateSignatories)
        \<and> \<not> distinct (map cosignatoryAccount mods))"
proof -
  have d: "\<not> distinct (map pubKey duplicateSignatories)"
    by (simp add: duplicateSignatories_def)
  from duplicate_cosignatories_kept [OF d] d show ?thesis by blast
qed
text \<open>
  C6 as stated fails: two modifications adding the same key are returned in a finished,
  wrapped transaction.
\<close>

theorem duplicate_cosignatories_built:
  "fst (constructAggregateModifications exampleEnv 0 ''K'' exampleAggregateTx
          duplicateSignatories)
   = Entity
       \<lparr> txtype = MultisigTransaction, version = 0x98000001, signer = ''K'',
         timeStamp = 1001, deadline = 4601 \<rparr>
       6000000
       (MultisigCustom
          (Entity
             \<lparr> txtype = MultisigModification, version = 0x98000002, signer = ''M'',
               timeStamp = 1000, deadline = 4600 \<rparr>
             28000000
             (AggregateCustom
                [\<lparr> modificationType = 1, cosignatoryAccount = ''TB'' \<rparr>,
                 \<lparr> modificationType = 1, cosignatoryAccount = ''TB'' \<rparr>]
                (Some \<lparr> relativeChange = Some 1 \<rparr>))))"
  by (simp add: constructAggregateModifications_def multisigWrapper_def CREATE_DATA_def
      CURRENT_NETWORK_VERSION_def Let_def exampleEnv_def exampleAggregateTx_def
      duplicateSignatories_def compareByTypeThenAddress_def)

subsection \<open>Fees for attached mosaics\<close>

lemma mosaicStep_None_iff:
  "mosaicStep env multiplier reg st m = None
   \<longleftrightarrow> reg (mosaicIdToName env (att_mosaicId m)) = None"
  by (simp add: mosaicStep_def Let_def split: option.splits)

lemma mosaicsLoop_None_iff:
  "mosaicsLoop env multiplier reg ms st = None \<longleftrightarrow> \<not> assetsKnown env reg ms"
proof (induction ms arbitrary: st)
  case Nil
  then show ?case by (simp add: assetsKnown_def)
next
  case (Cons m ms)
  show ?case
  proof (cases "mosaicStep env multiplier reg st m")
    case None
    then show ?thesis
      using mosaicStep_None_iff [of env multiplier reg st m] by (simp add: assetsKnown_def)
  next
    case (Some st')
    then have "reg (mosaicIdToName env (att_mosaicId m)) \<noteq> None"
      using mosaicStep_None_iff [of env multiplier reg st m] by simp
    with Some Cons.IH [of st'] show ?thesis by (simp add: assetsKnown_def)
  qed
qed

text \<open>
  The first half of C1 holds: the result is the sentinel \<open>-1\<close> exactly when some
  attachment names an asset that the registry does not have, and at least 1 otherwise.
\<close>

lemma calculateMosaicsFee_sentinel:
  "calculateMosaicsFee env multiplier reg ms = - 1 \<longleftrightarrow> \<not> assetsKnown env reg ms"
proof (cases "mosaicsLoop env multiplier reg ms initialLoopState")
  case None
  then show ?thesis
    using mosaicsLoop_None_iff [of env multiplier reg ms initialLoopState]
    by (simp add: calculateMosaicsFee_def)
next
  case (Some st)
  then show ?thesis
    using mosaicsLoop_None_iff [of env multiplier reg ms initialLoopState]
    by (simp add: calculateMosaicsFee_def)
qed

lemma calculateMosaicsFee_known:
  "assetsKnown env reg ms \<Longrightarrow> 1 \<le> calculateMosaicsFee env multiplier reg ms"
  using mosaicsLoop_None_iff [of env multiplier reg ms initialLoopState]
  by (cases "mosaicsLoop env multiplier reg ms initialLoopState")
     (simp_all add: calculateMosaicsFee_def)

lemma msgFee_nonneg: "0 \<le> msgFee msg"
  by (simp add: msgFee_def)

text \<open>
  A small-business attachment adds \<open>max(1, 1 - a)\<close>, where \<open>a\<close> is the adjustment
  that the last attachment of another kind left behind (0 if there was none): 1 when
  that adjustment is not negative.
\<close>

lemma mosaicStep_small_business:
  assumes "reg (mosaicIdToName env (att_mosaicId m)) = Some pair"
    and "mosaic_supply pair \<le> 10000" and "divisibilityOf pair = 0"
  shows "mosaicStep env multiplier reg st m
         = Some (st\<lparr> loop_fee := 1,
                  totalFee := totalFee st + adjustedFee 1 (supplyRelatedAdjustment st) \<rparr>)"
  using assms by (simp add: mosaicStep_def Let_def)

lemma adjustedFee_small_business:
  "adj = Infinity \<or> (\<exists>a. adj = Finite a \<and> 0 \<le> a) \<Longrightarrow> adjustedFee 1 adj = 1"
  by (auto simp: adjustedFee_def)

lemma ln_nine_tenths: "- (5 / 4) \<le> ln (9 / 10 :: real) \<and> ln (9 / 10 :: real) < 0"
proof -
  have "ln (10 / 9 :: real) \<le> 10 / 9 - 1" by (rule ln_le_minus_one) simp
  moreover have "ln (9 / 10 :: real) = - ln (10 / 9 :: real)"
    by (simp add: ln_div)
  ultimately show ?thesis by simp
qed

lemma supplyAdjustment_oversupplied: "supplyAdjustment 10000000000 6 = Finite (- 1)"
proof -
  have "\<lfloor>0.8 * ln (9 / 10 :: real)\<rfloor> = - 1"
    using ln_nine_tenths by (simp add: floor_eq_iff)
  then show ?thesis by (simp add: supplyAdjustment_def Let_def)
qed

lemma step_coin:
  "mosaicStep (exampleEnv\<lparr>calcMinFee := cmf, calcXemEquivalent := cxe\<rparr>) 1 exampleRegistry st
     coinAttachment
   = Some (st\<lparr> supplyRelatedAdjustment := Finite (- 1),
            loop_fee := cmf (of_int \<lceil>cxe 1 1000 10000000000 6\<rceil>),
            totalFee := totalFee st + max 1 (cmf (of_int \<lceil>cxe 1 1000 10000000000 6\<rceil>) + 1) \<rparr>)"
  by (simp add: mosaicStep_def exampleEnv_def exampleRegistry_def coinAttachment_def
      divisibilityOf_def oversuppliedPair_def toInt32_def
      supplyAdjustment_oversupplied adjustedFee_def Let_def)

lemma step_token:
  "mosaicStep (exampleEnv\<lparr>calcMinFee := cmf, calcXemEquivalent := cxe\<rparr>) 1 exampleRegistry st
     tokenAttachment
   = Some (st\<lparr> loop_fee := 1,
            totalFee := totalFee st + adjustedFee 1 (supplyRelatedAdjustment st) \<rparr>)"
  by (simp add: mosaicStep_def exampleEnv_def exampleRegistry_def tokenAttachment_def
      divisibilityOf_def smallBusinessPair_def toInt32_def Let_def)

text \<open>
  Beyond the maximum quantity the adjustment that an attachment leaves behind is
  negative, and a small-business attachment after it is charged more than 1. The asset
  \<open>big:coin\<close> has supply \<open>10^10\<close> and divisibility 6, more units than
  \<open>maxMosaicQuantity\<close>, so its adjustment is -1: \<open>shop:token\<close> adds 2 to the total
  when it comes after it and 1 when it comes before it.
\<close>

lemma small_business_fee_beyond_maximum:
  "calculateMosaicsFee (exampleEnv\<lparr>calcMinFee := cmf, calcXemEquivalent := cxe\<rparr>) 1
      exampleRegistry [coinAttachment, tokenAttachment]
    = calculateMosaicsFee (exampleEnv\<lparr>calcMinFee := cmf, calcXemEquivalent := cxe\<rparr>) 1
        exampleRegistry [coinAttachment] + 2
   \<and> calculateMosaicsFee (exampleEnv\<lparr>calcMinFee := cmf, calcXemEquivalent := cxe\<rparr>) 1
      exampleRegistry [tokenAttachment, coinAttachment]
    = calculateMosaicsFee (exampleEnv\<lparr>calcMinFee := cmf, calcXemEquivalent := cxe\<rparr>) 1
        exampleRegistry [coinAttachment] + 1
   \<and> calculateMosaicsFee (exampleEnv\<lparr>calcMinFee := cmf, calcXemEquivalent := cxe\<rparr>) 1
      exampleRegistry [coinAttachment]
    = max 1 (cmf (of_int \<lceil>cxe 1 1000 10000000000 6\<rceil>) + 1)"
  by (simp add: calculateMosaicsFee_def step_coin step_token initialLoopState_def
      adjustedFee_def)










subsection \<open>Transfers that name an unknown asset\<close>

lemma exampleEnv_fields:
  "network exampleEnv = Testnet"
  "createNEMTimeStamp exampleEnv k = 1000 + int k"
  "publicKey exampleEnv s = s"
  "toUpperCase exampleEnv s = s"
  "prepareMessage exampleEnv c t = \<lparr> msg_type = 1, payload = tx_message t \<rparr>"
  by (simp_all add: exampleEnv_def)

text \<open>
  C1 at a failing input. The second attachment names an asset that the registry does
  not have: \<open>calculateMosaicsFee\<close> returns -1, and \<open>prepareTransfer\<close> goes on to
  return a finished transfer whose fee is \<open>(0 + -1) * 1000000\<close>.
\<close>

theorem unknown_asset_transfer_is_built:
  "calculateMosaicsFee exampleEnv 1000000 exampleRegistry [tokenAttachment, ghostAttachment]
     = - 1
   \<and> prepareTransfer exampleEnv 0 exampleCommon ghostTransferTx exampleRegistry
     = (Entity
          \<lparr> txtype = Transfer, version = 0x98000002, signer = ''K'',
            timeStamp = 1000, deadline = 4600 \<rparr>
          (- 1000000)
          (TransferCustom ''TABC'' 1000000 \<lparr> msg_type = 1, payload = [] \<rparr>
             (Some [tokenAttachment, ghostAttachment])),
        1)"
proof -
  have unknown: "\<not> assetsKnown exampleEnv exampleRegistry [tokenAttachment, ghostAttachment]"
    by (simp add: assetsKnown_def exampleEnv_def exampleRegistry_def ghostAttachment_def)
  have sentinel:
    "calculateMosaicsFee exampleEnv 1000000 exampleRegistry [tokenAttachment, ghostAttachment]
       = - 1"
    by (simp add: calculateMosaicsFee_sentinel unknown)
  have rounded: "real_of_int (jsRound (tx_amount ghostTransferTx * 1000000)) = 1000000"
    by (simp add: jsRound_def ghostTransferTx_def)
  have "prepareTransfer exampleEnv 0 exampleCommon ghostTransferTx exampleRegistry
     = (Entity
          \<lparr> txtype = Transfer, version = 0x98000002, signer = ''K'',
            timeStamp = 1000, deadline = 4600 \<rparr>
          (- 1000000)
          (TransferCustom ''TABC'' 1000000 \<lparr> msg_type = 1, payload = [] \<rparr>
             (Some [tokenAttachment, ghostAttachment])),
        1)"
    unfolding prepareTransfer_def rounded
    by (simp add: Let_def constructTransfer_def CREATE_DATA_def CURRENT_NETWORK_VERSION_def
        msgFee_def stripDashes_def sentinel,
        simp add: exampleEnv_fields ghostTransferTx_def exampleCommon_def sentinel)
  with sentinel show ?thesis by simp
qed

text \<open>
  C4 at a failing input. A transfer with an empty message whose only attachment names an
  unknown asset is built with the fee -1000000.
\<close>

theorem fee_below_one_unit:
  "fee (fst (build exampleEnv 0 (PrepareTransfer exampleCommon ghostOnlyTx exampleRegistry)))
     = - 1000000"
proof -
  have unknown: "\<not> assetsKnown exampleEnv exampleRegistry [ghostAttachment]"
    by (simp add: assetsKnown_def exampleEnv_def exampleRegistry_def ghostAttachment_def)
  have sentinel: "calculateMosaicsFee exampleEnv 0 exampleRegistry [ghostAttachment] = - 1"
    by (simp add: calculateMosaicsFee_sentinel unknown)
  have rounded: "real_of_int (jsRound (tx_amount ghostOnlyTx * 1000000)) = 0"
    by (simp add: jsRound_def ghostOnlyTx_def)
  show ?thesis
    unfolding build.simps prepareTransfer_def rounded
    by (simp add: Let_def constructTransfer_def msgFee_def,
        simp add: exampleEnv_fields ghostOnlyTx_def exampleCommon_def sentinel)
qed

text \<open>
  Outside that case the invariant of C4 holds: when the minimum-fee helper returns at
  least 1 and every attachment of a transfer names a known asset, every built
  transaction, and every transaction wrapped inside it, has a fee of at least 1000000.
\<close>

lemma scaled_fee: "0 \<le> a \<Longrightarrow> 1 \<le> b \<Longrightarrow> 1000000 \<le> (a + b) * (1000000 :: int)"
  by simp

lemma fee_at_least_one_unit:
  assumes minFee: "\<forall>x. 1 \<le> calcMinFee env x"
    and known: "\<forall>cmn tx reg ms. req = PrepareTransfer cmn tx reg \<and> tx_mosaics tx = Some ms
                  \<longrightarrow> assetsKnown env reg ms"
  shows "\<forall>e \<in> set (entities (fst (build env n req))). 1000000 \<le> fee e"
proof (cases req)
  case (PrepareTransfer cmn tx reg)
  have m: "0 \<le> msgFee (prepareMessage env cmn tx)" by (rule msgFee_nonneg)
  show ?thesis
  proof (cases "tx_mosaics tx")
    case None
    have "1000000 \<le> (msgFee (prepareMessage env cmn tx)
             + calcMinFee env (real_of_int (jsRound (tx_amount tx * 1000000)) / 1000000))
             * 1000000"
      using m minFee by (intro scaled_fee) simp_all
    with PrepareTransfer None show ?thesis
      by (simp add: prepare_defs construct_defs Let_def)
  next
    case (Some ms)
    with known PrepareTransfer have "assetsKnown env reg ms" by simp
    then have "1 \<le> calculateMosaicsFee env
        (real_of_int (jsRound (tx_amount tx * 1000000))) reg ms"
      by (rule calculateMosaicsFee_known)
    with m have "1000000 \<le> (msgFee (prepareMessage env cmn tx)
             + calculateMosaicsFee env (real_of_int (jsRound (tx_amount tx * 1000000))) reg ms)
             * 1000000"
      by (intro scaled_fee) simp_all
    with Some PrepareTransfer show ?thesis
      by (simp add: prepare_defs construct_defs Let_def)
  qed
next
  case (PrepareApostilleTransfer cmn tx)
  have "0 \<le> msgFee \<lparr> msg_type = 1, payload = tx_message tx \<rparr>" by (rule msgFee_nonneg)
  then have "1000000 \<le> (msgFee \<lparr> msg_type = 1, payload = tx_message tx \<rparr>
             + calcMinFee env (tx_amount tx * 1000000 / 1000000)) * 1000000"
    using minFee by (intro scaled_fee) simp_all
  with PrepareApostilleTransfer show ?thesis
    by (simp add: prepare_defs construct_defs Let_def)
qed (simp_all add: prepare_defs construct_defs Let_def)

end
